theory Spec2Isabelle
  imports Complex_Main
begin

section \<open>Session and conversational-context management of the vision assistant backend\<close>

text \<open>
  A shallow embedding of \<^verbatim>\<open>src/backend/server.py\<close>: the \<^verbatim>\<open>ConnectionManager\<close> class, the
  two request handlers \<^verbatim>\<open>analyze_scene\<close> and \<^verbatim>\<open>ask_question\<close>, and the websocket endpoint.

  Conventions of the model.
  \<^item> A Python \<^verbatim>\<open>str\<close> or \<^verbatim>\<open>bytes\<close> value is a \<open>string\<close>: a list of code points below 256.
  \<^item> A dictionary is a map; \<^verbatim>\<open>k in d\<close> is \<open>k \<in> dom d\<close>.
  \<^item> A raised exception is the \<open>Inl\<close> branch of a sum.
  \<^item> A reading of \<^verbatim>\<open>datetime.utcnow()\<close> is an input of the operation that reads the clock.
  \<^item> The outcome of every awaited call on an external object (the websocket, the language
    model) is an input as well; the calls themselves are appended to a log kept in the state,
    so that "this collaborator was not invoked" is a statement about the log.
  \<^item> The handlers are coroutines on one event loop: code between two \<^verbatim>\<open>await\<close>s runs
    without interruption. Each handler is therefore split at its collaborator \<^verbatim>\<open>await\<close> into
    a \<open>begin\<close> and a \<open>resume\<close> part; other events may run between the two.
  \<^item> Logging calls are not modelled.
\<close>

subsection \<open>Strings\<close>

text \<open>\<^verbatim>\<open>str.isspace\<close> on the code points below 256, and \<^verbatim>\<open>str.strip()\<close> without argument.\<close>

definition py_isspace :: "char \<Rightarrow> bool" where
  "py_isspace c = ((of_char c :: nat) \<in> set [9, 10, 11, 12, 13, 28, 29, 30, 31, 32, 133, 160])"

definition strip :: "string \<Rightarrow> string" where
  "strip s = rev (dropWhile py_isspace (rev (dropWhile py_isspace s)))"

text \<open>\<^verbatim>\<open>s.split(sep)\<close> for a one-character separator: the result is never empty.\<close>

fun split :: "char \<Rightarrow> string \<Rightarrow> string list" where
  "split sep [] = [[]]"
| "split sep (c # cs) =
     (if c = sep then [] # split sep cs
      else (case split sep cs of
              [] \<Rightarrow> [[c]]
            | w # ws \<Rightarrow> (c # w) # ws))"

text \<open>Decimal rendering of a natural number, as \<^verbatim>\<open>%zd\<close> prints it.\<close>

fun str_nat :: "nat \<Rightarrow> string" where
  "str_nat n =
     (if n < 10 then [''0123456789'' ! n]
      else str_nat (n div 10) @ [''0123456789'' ! (n mod 10)])"

declare str_nat.simps [simp del]

subsection \<open>Exceptions\<close>

text \<open>
  \<^verbatim>\<open>HTTPException(status_code, detail)\<close> is what a handler raises to its caller; every other
  exception is \<open>Exception msg\<close>, with \<open>msg\<close> what \<^verbatim>\<open>str(e)\<close> gives.
\<close>

datatype exn = HTTPException (status_code: nat) (detail: string) | Exception string

fun str_exn :: "exn \<Rightarrow> string" where
  "str_exn (Exception msg) = msg"
| "str_exn (HTTPException c d) = str_nat c @ '': '' @ d"

subsection \<open>The standard library's base64 codec\<close>

text \<open>
  \<^verbatim>\<open>base64.b64decode(s)\<close> for a \<^verbatim>\<open>str\<close> argument, as CPython 3.11 computes it: the
  argument is encoded to ASCII (a \<^verbatim>\<open>ValueError\<close> on a code point above 127), then
  \<^verbatim>\<open>binascii.a2b_base64\<close> runs in its non-strict mode: characters outside the alphabet are
  skipped, a pad character ends the input once the current quad holds at least two
  characters and the pads fill it, and an unfinished quad at the end is an error.
\<close>

definition b64_index :: "char \<Rightarrow> nat option" where
  "b64_index c =
     (let n = (of_char c :: nat) in
      if 65 \<le> n \<and> n \<le> 90 then Some (n - 65)
      else if 97 \<le> n \<and> n \<le> 122 then Some (n - 71)
      else if 48 \<le> n \<and> n \<le> 57 then Some (n + 4)
      else if n = 43 then Some 62
      else if n = 47 then Some 63
      else None)"

fun a2b_base64 :: "nat \<Rightarrow> nat \<Rightarrow> nat \<Rightarrow> string \<Rightarrow> string \<Rightarrow> exn + string" where
  "a2b_base64 quad_pos leftchar pads out [] =
     (if quad_pos \<noteq> 0 then
        (if quad_pos = 1 then
           Inl (Exception (''Invalid base64-encoded string: number of data characters (''
                  @ str_nat (length out div 3 * 4 + 1)
                  @ '') cannot be 1 more than a multiple of 4''))
         else Inl (Exception ''Incorrect padding''))
      else Inr out)"
| "a2b_base64 quad_pos leftchar pads out (c # cs) =
     (if c = CHR ''='' then
        (if quad_pos \<ge> 2 \<and> quad_pos + (pads + 1) \<ge> 4 then Inr out
         else a2b_base64 quad_pos leftchar (if quad_pos \<ge> 2 then pads + 1 else pads) out cs)
      else
        (case b64_index c of
           None \<Rightarrow> a2b_base64 quad_pos leftchar pads out cs
         | Some this_ch \<Rightarrow>
             (if quad_pos = 0 then a2b_base64 1 this_ch 0 out cs
              else if quad_pos = 1 then
                a2b_base64 2 (this_ch mod 16) 0
                  (out @ [char_of (leftchar * 4 + this_ch div 16)]) cs
              else if quad_pos = 2 then
                a2b_base64 3 (this_ch mod 4) 0
                  (out @ [char_of (leftchar * 16 + this_ch div 4)]) cs
              else
                a2b_base64 0 0 0 (out @ [char_of (leftchar * 64 + this_ch)]) cs)))"

definition b64decode :: "string \<Rightarrow> exn + string" where
  "b64decode s =
     (if list_ex (\<lambda>c. (of_char c :: nat) > 127) s
      then Inl (Exception ''string argument should contain only ASCII characters'')
      else a2b_base64 0 0 0 [] s)"

text \<open>\<^verbatim>\<open>base64.b64encode(b).decode()\<close>.\<close>

definition b64_char :: "nat \<Rightarrow> char" where
  "b64_char n = ''ABCDEFGHIJKLMNOPQRSTUVWXYZabcdefghijklmnopqrstuvwxyz0123456789+/'' ! n"

fun b64encode :: "string \<Rightarrow> string" where
  "b64encode [] = []"
| "b64encode [a] =
     (let x = (of_char a :: nat) in
      [b64_char (x div 4), b64_char (x mod 4 * 16), CHR ''='', CHR ''=''])"
| "b64encode [a, b] =
     (let x = (of_char a :: nat); y = (of_char b :: nat) in
      [b64_char (x div 4), b64_char (x mod 4 * 16 + y div 16), b64_char (y mod 16 * 4),
       CHR ''=''])"
| "b64encode (a # b # c # rest) =
     (let x = (of_char a :: nat); y = (of_char b :: nat); z = (of_char c :: nat) in
      [b64_char (x div 4), b64_char (x mod 4 * 16 + y div 16),
       b64_char (y mod 16 * 4 + z div 64), b64_char (z mod 64)] @ b64encode rest)"

subsection \<open>Data model\<close>

text \<open>
  A session is the dictionary \<^verbatim>\<open>{"last_scene_description": ..., "conversation_history": [...]}\<close>
  that \<^verbatim>\<open>connect\<close> creates; a history entry is the dictionary that \<^verbatim>\<open>ask_question\<close>
  appends. The fields of the two response models carry a prefix where the source uses one
  name in two classes (\<open>sa_\<close> for \<^verbatim>\<open>SceneAnalysisResponse\<close>, \<open>qr_\<close> for
  \<^verbatim>\<open>QuestionRequest\<close>, \<open>qa_\<close> for \<^verbatim>\<open>QuestionResponse\<close>).
\<close>

type_synonym client_id = string
type_synonym websocket = nat
type_synonym datetime = nat

record history_entry =
  question :: string
  answer :: string
  scene_context :: string
  timestamp :: datetime

record session =
  last_scene_description :: string
  conversation_history :: "history_entry list"

record ConnectionManager =
  active_connections :: "client_id \<rightharpoonup> websocket"
  client_sessions :: "client_id \<rightharpoonup> session"

record SceneAnalysisRequest =
  image_data :: string
  client_id :: client_id

record SceneAnalysisResponse =
  description :: string
  sa_timestamp :: datetime
  confidence :: real

record QuestionRequest =
  qr_question :: string
  qr_client_id :: client_id

record QuestionResponse =
  qa_answer :: string
  qa_scene_context :: string
  qa_timestamp :: datetime

text \<open>
  The external objects. A websocket is known by its identity; the calls made on websockets
  are logged in order. The source calls \<^verbatim>\<open>accept\<close> and \<^verbatim>\<open>send_text\<close> only; \<open>Close\<close> is
  there so that "the channel was closed" can be stated. A message is the dictionary handed
  to \<^verbatim>\<open>json.dumps\<close>.
\<close>

datatype json = JStr string | JTime datetime

type_synonym message = "(string \<times> json) list"

datatype ws_call = Accept | Send_text message | Close

text \<open>
  One \<^verbatim>\<open>LlmChat(...).send_message(UserMessage(...))\<close>. The session identifier
  \<^verbatim>\<open>f"scene_{client_id}_{timestamp}"\<close> is kept as its three parts.
\<close>

record llm_call =
  session_id :: "string \<times> client_id \<times> datetime"
  system_message :: string
  user_text :: string
  file_contents :: "string list"

text \<open>
  The process-wide state: the global \<^verbatim>\<open>manager\<close>, whether the global \<^verbatim>\<open>vision_chat\<close> is
  set (\<^verbatim>\<open>not vision_chat\<close> is \<open>\<not> vision_chat st\<close>), and the two call logs.
\<close>

record server =
  manager :: ConnectionManager
  vision_chat :: bool
  ws_calls :: "(websocket \<times> ws_call) list"
  llm_calls :: "llm_call list"

subsection \<open>ConnectionManager\<close>

definition init_manager :: ConnectionManager where
  "init_manager = \<lparr>active_connections = Map.empty, client_sessions = Map.empty\<rparr>"

definition new_session :: session where
  "new_session = \<lparr>last_scene_description = [], conversation_history = []\<rparr>"

text \<open>
  \<^verbatim>\<open>connect\<close>: \<open>accept_outcome\<close> is \<open>Some e\<close> when \<^verbatim>\<open>await websocket.accept()\<close> raises
  \<open>e\<close>, which leaves the method before anything is stored.
\<close>

definition connect :: "server \<Rightarrow> websocket \<Rightarrow> client_id \<Rightarrow> exn option \<Rightarrow> exn option \<times> server" where
  "connect st ws cid accept_outcome =
     (let st1 = st\<lparr>ws_calls := ws_calls st @ [(ws, Accept)]\<rparr> in
      case accept_outcome of
        Some e \<Rightarrow> (Some e, st1)
      | None \<Rightarrow>
          (None,
           st1\<lparr>manager := (manager st1)
             \<lparr>active_connections := (active_connections (manager st1))(cid \<mapsto> ws),
              client_sessions := (client_sessions (manager st1))(cid \<mapsto> new_session)\<rparr>\<rparr>))"

definition disconnect_manager :: "ConnectionManager \<Rightarrow> client_id \<Rightarrow> ConnectionManager" where
  "disconnect_manager m cid =
     (let m1 = (if cid \<in> dom (active_connections m)
                then m\<lparr>active_connections := (active_connections m)(cid := None)\<rparr>
                else m)
      in if cid \<in> dom (client_sessions m1)
         then m1\<lparr>client_sessions := (client_sessions m1)(cid := None)\<rparr>
         else m1)"

text \<open>\<^verbatim>\<open>disconnect\<close> on the global manager.\<close>

definition disconnect :: "server \<Rightarrow> client_id \<Rightarrow> server" where
  "disconnect st cid = st\<lparr>manager := disconnect_manager (manager st) cid\<rparr>"

text \<open>
  \<^verbatim>\<open>send_message\<close>: \<open>send_outcome\<close> is \<open>Some e\<close> when \<^verbatim>\<open>json.dumps\<close> or the awaited
  \<^verbatim>\<open>send_text\<close> raises \<open>e\<close>. The method has no raising path of its own: the only
  statement that can raise is inside the \<^verbatim>\<open>try\<close>.
\<close>

definition send_message :: "server \<Rightarrow> client_id \<Rightarrow> message \<Rightarrow> exn option \<Rightarrow> server" where
  "send_message st cid msg send_outcome =
     (case active_connections (manager st) cid of
        Some ws \<Rightarrow>
          (let st1 = st\<lparr>ws_calls := ws_calls st @ [(ws, Send_text msg)]\<rparr> in
           case send_outcome of
             None \<Rightarrow> st1
           | Some e \<Rightarrow> disconnect st1 cid)
      | None \<Rightarrow> st)"

text \<open>
  The read at the head of \<^verbatim>\<open>ask_question\<close>: the empty string unless the client has a
  session, then that session's \<^verbatim>\<open>last_scene_description\<close>.
\<close>

definition get_scene_description :: "server \<Rightarrow> client_id \<Rightarrow> string" where
  "get_scene_description st cid =
     (case client_sessions (manager st) cid of
        None \<Rightarrow> []
      | Some s \<Rightarrow> last_scene_description s)"

subsection \<open>The request handlers\<close>

text \<open>
  The argument of \<^verbatim>\<open>b64decode\<close> in \<^verbatim>\<open>analyze_scene\<close>:
  \<^verbatim>\<open>image_data.split(',')[1] if ',' in image_data else image_data\<close>.
\<close>

definition image_payload :: "string \<Rightarrow> exn + string" where
  "image_payload s =
     (if CHR '','' \<in> set s then
        (let parts = split (CHR '','') s in
         if 1 < length parts then Inr (parts ! 1)
         else Inl (Exception ''list index out of range''))
      else Inr s)"

text \<open>The body of the inner \<^verbatim>\<open>try\<close> of \<^verbatim>\<open>analyze_scene\<close>: the decoded image bytes.\<close>

definition decode_image_data :: "string \<Rightarrow> exn + string" where
  "decode_image_data s =
     (case image_payload s of
        Inl e \<Rightarrow> Inl e
      | Inr p \<Rightarrow> b64decode p)"

definition scene_system_message :: string where
  "scene_system_message = ''You are Bujji, an AI vision assistant. Describe what you see in this webcam image in 1-2 natural sentences. Focus on the most important elements - people, objects, activities, or scenes. Be conversational and engaging.''"

definition scene_user_text :: string where
  "scene_user_text = ''What do you see in this image? Describe it naturally in 1-2 sentences.''"

text \<open>
  \<^verbatim>\<open>analyze_scene\<close> up to \<^verbatim>\<open>await scene_chat.send_message(user_message)\<close>: either an
  \<^verbatim>\<open>HTTPException\<close> is raised, or the coroutine is suspended in the collaborator call,
  which the log records. \<open>now\<close> is the clock reading inside the session identifier.
\<close>

definition analyze_scene_begin ::
    "server \<Rightarrow> SceneAnalysisRequest \<Rightarrow> datetime \<Rightarrow> (exn + unit) \<times> server" where
  "analyze_scene_begin st request now =
     (if \<not> vision_chat st then (Inl (HTTPException 503 ''Vision AI not available''), st)
      else
        (case decode_image_data (image_data request) of
           Inl e \<Rightarrow> (Inl (HTTPException 400 (''Invalid image data: '' @ str_exn e)), st)
         | Inr image_bytes \<Rightarrow>
             (Inr (),
              st\<lparr>llm_calls := llm_calls st @
                   [\<lparr>session_id = (''scene'', client_id request, now),
                     system_message = scene_system_message,
                     user_text = scene_user_text,
                     file_contents = [b64encode image_bytes]\<rparr>]\<rparr>)))"

text \<open>
  \<^verbatim>\<open>analyze_scene\<close> from the point where the collaborator call returns \<open>reply\<close> (\<open>Inl\<close>:
  it raised). \<open>now\<close> is the clock reading of the response.
\<close>

definition analyze_scene_resume ::
    "server \<Rightarrow> SceneAnalysisRequest \<Rightarrow> exn + string \<Rightarrow> datetime
      \<Rightarrow> (exn + SceneAnalysisResponse) \<times> server" where
  "analyze_scene_resume st request reply now =
     (case reply of
        Inl (HTTPException c d) \<Rightarrow> (Inl (HTTPException c d), st)
      | Inl (Exception msg) \<Rightarrow>
          (Inl (HTTPException 500 (''Scene analysis failed: '' @ msg)), st)
      | Inr response \<Rightarrow>
          (let descr = strip response;
               st1 = (case client_sessions (manager st) (client_id request) of
                        None \<Rightarrow> st
                      | Some s \<Rightarrow>
                          st\<lparr>manager := (manager st)
                            \<lparr>client_sessions := (client_sessions (manager st))
                               (client_id request \<mapsto>
                                  s\<lparr>last_scene_description := descr\<rparr>)\<rparr>\<rparr>)
           in (Inr \<lparr>description = descr, sa_timestamp = now, confidence = 0.85\<rparr>,
               st1)))"

text \<open>The whole handler when nothing else runs while it waits for the collaborator.\<close>

definition analyze_scene ::
    "server \<Rightarrow> SceneAnalysisRequest \<Rightarrow> datetime \<Rightarrow> exn + string \<Rightarrow> datetime
      \<Rightarrow> (exn + SceneAnalysisResponse) \<times> server" where
  "analyze_scene st request t0 reply t1 =
     (case analyze_scene_begin st request t0 of
        (Inl e, st1) \<Rightarrow> (Inl e, st1)
      | (Inr u, st1) \<Rightarrow> analyze_scene_resume st1 request reply t1)"

definition qa_system_message :: "string \<Rightarrow> string" where
  "qa_system_message scene_ctx =
     ''You are Bujji, an AI vision assistant. You have just analyzed a scene and described it as: ''
     @ [CHR 0x27] @ scene_ctx @ [CHR 0x27]
     @ ''. Now answer the user's question about this scene. Be conversational and helpful. If the question can't be answered from the scene description, say so politely.''"

definition qa_user_text :: "string \<Rightarrow> string \<Rightarrow> string" where
  "qa_user_text scene_ctx q =
     ''Based on what you described about the scene (''
     @ [CHR 0x27] @ scene_ctx @ [CHR 0x27]
     @ ''), please answer this question: '' @ q"

text \<open>
  \<^verbatim>\<open>ask_question\<close> up to \<^verbatim>\<open>await qa_chat.send_message(user_message)\<close>. The local variable
  \<^verbatim>\<open>scene_context\<close> (here \<open>scene_ctx\<close>) lives across the \<^verbatim>\<open>await\<close>, so it is the
  value of the suspended coroutine.
\<close>

definition ask_question_begin ::
    "server \<Rightarrow> QuestionRequest \<Rightarrow> datetime \<Rightarrow> (exn + string) \<times> server" where
  "ask_question_begin st request now =
     (if \<not> vision_chat st then (Inl (HTTPException 503 ''Vision AI not available''), st)
      else
        (let scene_ctx = get_scene_description st (qr_client_id request) in
         if scene_ctx = [] then
           (Inl (HTTPException 400
              ''No recent scene analysis available. Please capture a scene first.''), st)
         else
           (Inr scene_ctx,
            st\<lparr>llm_calls := llm_calls st @
                 [\<lparr>session_id = (''qa'', qr_client_id request, now),
                   system_message = qa_system_message scene_ctx,
                   user_text = qa_user_text scene_ctx (qr_question request),
                   file_contents = []\<rparr>]\<rparr>)))"

text \<open>
  \<^verbatim>\<open>ask_question\<close> from the return of the collaborator call; \<open>t_entry\<close> and \<open>t_resp\<close> are
  the two clock readings, of the history entry and of the response.
\<close>

definition ask_question_resume ::
    "server \<Rightarrow> QuestionRequest \<Rightarrow> string \<Rightarrow> exn + string \<Rightarrow> datetime \<Rightarrow> datetime
      \<Rightarrow> (exn + QuestionResponse) \<times> server" where
  "ask_question_resume st request scene_ctx reply t_entry t_resp =
     (case reply of
        Inl (HTTPException c d) \<Rightarrow> (Inl (HTTPException c d), st)
      | Inl (Exception msg) \<Rightarrow>
          (Inl (HTTPException 500 (''Question answering failed: '' @ msg)), st)
      | Inr response \<Rightarrow>
          (let answer_text = strip response;
               st1 = (case client_sessions (manager st) (qr_client_id request) of
                        None \<Rightarrow> st
                      | Some s \<Rightarrow>
                          st\<lparr>manager := (manager st)
                            \<lparr>client_sessions := (client_sessions (manager st))
                               (qr_client_id request \<mapsto>
                                  s\<lparr>conversation_history := conversation_history s @
                                      [\<lparr>question = qr_question request,
                                        answer = answer_text,
                                        scene_context = scene_ctx,
                                        timestamp = t_entry\<rparr>]\<rparr>)\<rparr>\<rparr>)
           in (Inr \<lparr>qa_answer = answer_text, qa_scene_context = scene_ctx,
                    qa_timestamp = t_resp\<rparr>,
               st1)))"

definition ask_question ::
    "server \<Rightarrow> QuestionRequest \<Rightarrow> datetime \<Rightarrow> exn + string \<Rightarrow> datetime \<Rightarrow> datetime
      \<Rightarrow> (exn + QuestionResponse) \<times> server" where
  "ask_question st request t0 reply t_entry t_resp =
     (case ask_question_begin st request t0 of
        (Inl e, st1) \<Rightarrow> (Inl e, st1)
      | (Inr scene_ctx, st1) \<Rightarrow> ask_question_resume st1 request scene_ctx reply t_entry t_resp)"

subsection \<open>The websocket endpoint\<close>

text \<open>
  One turn of the loop of \<^verbatim>\<open>websocket_endpoint\<close>. \<open>Received ty\<close>: a text arrived, it
  parsed as a JSON object and \<^verbatim>\<open>data.get("type")\<close> is \<open>ty\<close>. \<open>Receive_raises\<close>:
  \<^verbatim>\<open>receive_text\<close> raised \<^verbatim>\<open>WebSocketDisconnect\<close>, or it, \<^verbatim>\<open>json.loads\<close> or
  \<^verbatim>\<open>data.get\<close> raised anything else; both handlers call \<^verbatim>\<open>manager.disconnect\<close> with the
  identifier of the path, and the loop ends.
\<close>

datatype inbound = Received "string option" | Receive_raises

definition websocket_receive ::
    "server \<Rightarrow> client_id \<Rightarrow> inbound \<Rightarrow> datetime \<Rightarrow> exn option \<Rightarrow> server" where
  "websocket_receive st cid inb now send_outcome =
     (case inb of
        Receive_raises \<Rightarrow> disconnect st cid
      | Received ty \<Rightarrow>
          (if ty = Some ''ping'' then
             send_message st cid [(''type'', JStr ''pong'')] send_outcome
           else if ty = Some ''scene_update'' then
             send_message st cid
               [(''type'', JStr ''scene_acknowledged''), (''timestamp'', JTime now)]
               send_outcome
           else st))"

subsection \<open>The event loop\<close>

text \<open>
  The handlers run as tasks of one asyncio event loop. A request that reaches its collaborator
  call stays in flight until that call returns, and any other event may happen in between:
  another request may begin or resume, and a websocket may connect or drop. \<open>tasks\<close> holds
  the suspended handlers by request number, \<open>results\<close> what each finished handler
  returned or raised.
\<close>

datatype in_flight =
    Scene_in_flight SceneAnalysisRequest
  | Question_in_flight QuestionRequest string

datatype http_result =
    Scene_result "exn + SceneAnalysisResponse"
  | Question_result "exn + QuestionResponse"

record system =
  srv :: server
  tasks :: "nat \<rightharpoonup> in_flight"
  results :: "nat \<rightharpoonup> http_result"

datatype event =
    Ws_open websocket client_id "exn option"
  | Ws_receive client_id inbound datetime "exn option"
  | Post_analyze_scene nat SceneAnalysisRequest datetime
  | Post_ask_question nat QuestionRequest datetime
  | Llm_returns nat "exn + string" datetime datetime

fun step :: "system \<Rightarrow> event \<Rightarrow> system" where
  "step sys (Ws_open ws cid accept_outcome) =
     sys\<lparr>srv := snd (connect (srv sys) ws cid accept_outcome)\<rparr>"
| "step sys (Ws_receive cid inb now send_outcome) =
     sys\<lparr>srv := websocket_receive (srv sys) cid inb now send_outcome\<rparr>"
| "step sys (Post_analyze_scene rid request now) =
     (case analyze_scene_begin (srv sys) request now of
        (Inl e, st1) \<Rightarrow>
          sys\<lparr>srv := st1, results := (results sys)(rid \<mapsto> Scene_result (Inl e))\<rparr>
      | (Inr u, st1) \<Rightarrow>
          sys\<lparr>srv := st1, tasks := (tasks sys)(rid \<mapsto> Scene_in_flight request)\<rparr>)"
| "step sys (Post_ask_question rid request now) =
     (case ask_question_begin (srv sys) request now of
        (Inl e, st1) \<Rightarrow>
          sys\<lparr>srv := st1, results := (results sys)(rid \<mapsto> Question_result (Inl e))\<rparr>
      | (Inr scene_ctx, st1) \<Rightarrow>
          sys\<lparr>srv := st1, tasks := (tasks sys)(rid \<mapsto> Question_in_flight request scene_ctx)\<rparr>)"
| "step sys (Llm_returns rid reply t_entry t_resp) =
     (case tasks sys rid of
        None \<Rightarrow> sys
      | Some (Scene_in_flight request) \<Rightarrow>
          (case analyze_scene_resume (srv sys) request reply t_resp of
             (r, st1) \<Rightarrow>
               sys\<lparr>srv := st1, tasks := (tasks sys)(rid := None),
                   results := (results sys)(rid \<mapsto> Scene_result r)\<rparr>)
      | Some (Question_in_flight request scene_ctx) \<Rightarrow>
          (case ask_question_resume (srv sys) request scene_ctx reply t_entry t_resp of
             (r, st1) \<Rightarrow>
               sys\<lparr>srv := st1, tasks := (tasks sys)(rid := None),
                   results := (results sys)(rid \<mapsto> Question_result r)\<rparr>))"

definition run :: "system \<Rightarrow> event list \<Rightarrow> system" where
  "run = foldl step"

text \<open>The server right after a start-up that set \<^verbatim>\<open>vision_chat\<close>, before any request.\<close>

definition init_server :: server where
  "init_server = \<lparr>manager = init_manager, vision_chat = True, ws_calls = [], llm_calls = []\<rparr>"

definition init_system :: system where
  "init_system = \<lparr>srv = init_server, tasks = Map.empty, results = Map.empty\<rparr>"

subsection \<open>Invariant and example states\<close>

text \<open>
  \<^verbatim>\<open>connect\<close> adds a client to both dictionaries and \<^verbatim>\<open>disconnect\<close> removes it from
  both; nothing else adds or removes a key. So the two dictionaries have the same keys in
  every state the server reaches (\<open>wf_manager_reachable\<close> below).
\<close>

definition wf_manager :: "ConnectionManager \<Rightarrow> bool" where
  "wf_manager m = (dom (active_connections m) = dom (client_sessions m))"

text \<open>No \<^verbatim>\<open>close\<close> was ever called on a websocket.\<close>

definition never_closed :: "server \<Rightarrow> bool" where
  "never_closed st = (Close \<notin> snd ` set (ws_calls st))"

text \<open>
  The states and requests of the examples: the image payloads are the base64 texts of the
  bytes \<^verbatim>\<open>hello\<close> and \<^verbatim>\<open>world\<close>; \<open>raw_text_request\<close> carries the text
  \<^verbatim>\<open>not-an-image\<close> itself, \<open>encoded_text_request\<close> the base64 text of these twelve bytes.
\<close>

definition client1_request :: SceneAnalysisRequest where
  "client1_request = \<lparr>image_data = ''aGVsbG8='', client_id = ''client1''\<rparr>"

definition client1_question :: QuestionRequest where
  "client1_question = \<lparr>qr_question = ''what color?'', qr_client_id = ''client1''\<rparr>"

definition client1_connected :: server where
  "client1_connected = snd (connect init_server 1 ''client1'' None)"

definition client1_described :: server where
  "client1_described =
     snd (analyze_scene client1_connected client1_request 0 (Inr ''a red chair'') 1)"

definition first_request :: SceneAnalysisRequest where
  "first_request = \<lparr>image_data = ''aGVsbG8='', client_id = ''A''\<rparr>"


definition system_A :: system where
  "system_A = run init_system [Ws_open 1 ''A'' None]"

definition raw_text_request :: SceneAnalysisRequest where
  "raw_text_request = \<lparr>image_data = ''not-an-image'', client_id = ''client1''\<rparr>"

definition encoded_text_request :: SceneAnalysisRequest where
  "encoded_text_request = \<lparr>image_data = ''bm90LWFuLWltYWdl'', client_id = ''client1''\<rparr>"

definition system_client1_described :: system where
  "system_client1_described =
     \<lparr>srv = client1_described, tasks = Map.empty, results = Map.empty\<rparr>"

definition uninitialised_server :: server where
  "uninitialised_server = init_server\<lparr>vision_chat := False\<rparr>"

section \<open>Properties\<close>

subsection \<open>Evaluation of the codec and of strip on the examples\<close>

lemma decode_hello: "decode_image_data ''aGVsbG8='' = Inr ''hello''"
  by code_simp


lemma decode_data_url: "decode_image_data ''data:image/jpeg;base64,aGVsbG8='' = Inr ''hello''"
  by code_simp

lemma decode_encoded_not_an_image:
  "decode_image_data ''bm90LWFuLWltYWdl'' = Inr ''not-an-image''"
  by code_simp

lemma decode_raw_not_an_image:
  "decode_image_data ''not-an-image'' = Inl (Exception ''Incorrect padding'')"
  by code_simp

lemma decode_invalid_base64:
  "decode_image_data ''invalid_base64'' = Inl (Exception
     ''Invalid base64-encoded string: number of data characters (13) cannot be 1 more than a multiple of 4'')"
  by code_simp

text \<open>With two commas it is the segment between them that is decoded.\<close>

lemma decode_second_segment: "decode_image_data ''x,aGVs,bG8'' = Inr ''hel''"
  by code_simp

lemma encode_hello: "b64encode ''hello'' = ''aGVsbG8=''"
  by code_simp

lemma encode_world: "b64encode ''world'' = ''d29ybGQ=''"
  by code_simp

lemma strip_a_red_chair: "strip ''a red chair'' = ''a red chair''"
  by code_simp

lemma strip_leading_space: "strip '' a red chair'' = ''a red chair''"
  by code_simp

lemma strip_first: "strip ''first'' = ''first''"
  by code_simp


lemma strip_red: "strip ''red'' = ''red''"
  by code_simp

lemma strip_a_blue_table: "strip ''a blue table'' = ''a blue table''"
  by code_simp

lemmas eval_defs = run_def init_system_def init_server_def init_manager_def connect_def
  analyze_scene_def analyze_scene_begin_def analyze_scene_resume_def
  ask_question_def ask_question_begin_def ask_question_resume_def
  get_scene_description_def new_session_def Let_def

subsection \<open>Runs of the event loop\<close>

lemma run_snoc: "run sys (evs @ [ev]) = step (run sys evs) ev"
  by (simp add: run_def)

lemma run_Cons: "run sys (ev # evs) = run (step sys ev) evs"
  by (simp add: run_def)

subsection \<open>The two dictionaries keep the same keys\<close>

lemma disconnect_manager_idem:
  "disconnect_manager (disconnect_manager m cid) cid = disconnect_manager m cid"
  by (simp add: disconnect_manager_def Let_def)

lemma disconnect_manager_unknown:
  "wf_manager m \<Longrightarrow> active_connections m cid = None \<Longrightarrow> disconnect_manager m cid = m"
  by (auto simp add: disconnect_manager_def wf_manager_def Let_def)

lemma wf_connect:
  "wf_manager (manager st) \<Longrightarrow> wf_manager (manager (snd (connect st ws cid ao)))"
  by (auto simp add: connect_def wf_manager_def Let_def split: option.splits)

lemma wf_disconnect_manager: "wf_manager m \<Longrightarrow> wf_manager (disconnect_manager m cid)"
  by (auto simp add: disconnect_manager_def wf_manager_def Let_def)

lemma wf_send_message:
  "wf_manager (manager st) \<Longrightarrow> wf_manager (manager (send_message st cid msg so))"
  by (auto simp add: send_message_def disconnect_def wf_disconnect_manager Let_def
      split: option.splits)

lemma wf_websocket_receive:
  "wf_manager (manager st) \<Longrightarrow> wf_manager (manager (websocket_receive st cid inb now so))"
  by (auto simp add: websocket_receive_def disconnect_def wf_disconnect_manager
      wf_send_message split: inbound.splits)

lemma wf_analyze_scene_begin:
  "wf_manager (manager st) \<Longrightarrow> wf_manager (manager (snd (analyze_scene_begin st r now)))"
  by (auto simp add: analyze_scene_begin_def split: sum.splits)

lemma wf_analyze_scene_resume:
  "wf_manager (manager st) \<Longrightarrow>
   wf_manager (manager (snd (analyze_scene_resume st r reply now)))"
  by (auto simp add: analyze_scene_resume_def wf_manager_def Let_def
      split: sum.splits exn.splits option.splits)

lemma wf_ask_question_begin:
  "wf_manager (manager st) \<Longrightarrow> wf_manager (manager (snd (ask_question_begin st r now)))"
  by (auto simp add: ask_question_begin_def Let_def split: sum.splits)

lemma wf_ask_question_resume:
  "wf_manager (manager st) \<Longrightarrow>
   wf_manager (manager (snd (ask_question_resume st r c reply t1 t2)))"
  by (auto simp add: ask_question_resume_def wf_manager_def Let_def
      split: sum.splits exn.splits option.splits)

lemma wf_step:
  assumes w: "wf_manager (manager (srv sys))"
  shows "wf_manager (manager (srv (step sys ev)))"
proof (cases ev)
  case (Ws_open ws cid ao)
  with w show ?thesis by (simp add: wf_connect)
next
  case (Ws_receive cid inb now so)
  with w show ?thesis by (simp add: wf_websocket_receive)
next
  case (Post_analyze_scene rid r now)
  with w wf_analyze_scene_begin [of "srv sys" r now] show ?thesis
    by (auto split: prod.splits sum.splits)
next
  case (Post_ask_question rid r now)
  with w wf_ask_question_begin [of "srv sys" r now] show ?thesis
    by (auto split: prod.splits sum.splits)
next
  case (Llm_returns rid reply t1 t2)
  show ?thesis
  proof (cases "tasks sys rid")
    case None
    with w Llm_returns show ?thesis by simp
  next
    case (Some task)
    show ?thesis
    proof (cases task)
      case (Scene_in_flight r)
      with Some Llm_returns w wf_analyze_scene_resume [of "srv sys" r reply t2]
      show ?thesis by (auto split: prod.splits)
    next
      case (Question_in_flight r c)
      with Some Llm_returns w wf_ask_question_resume [of "srv sys" r c reply t1 t2]
      show ?thesis by (auto split: prod.splits)
    qed
  qed
qed

lemma wf_run:
  "wf_manager (manager (srv sys)) \<Longrightarrow> wf_manager (manager (srv (run sys evs)))"
  unfolding run_def by (induction evs arbitrary: sys) (simp_all add: wf_step)

lemma wf_manager_reachable: "wf_manager (manager (srv (run init_system evs)))"
  by (rule wf_run)
    (simp add: init_system_def init_server_def init_manager_def wf_manager_def)

subsection \<open>No websocket is ever closed by the server\<close>

lemma never_closed_connect:
  "never_closed st \<Longrightarrow> never_closed (snd (connect st ws cid ao))"
  by (auto simp add: connect_def never_closed_def Let_def split: option.splits)

lemma never_closed_send_message:
  "never_closed st \<Longrightarrow> never_closed (send_message st cid msg so)"
  by (auto simp add: send_message_def disconnect_def never_closed_def Let_def
      split: option.splits)

lemma never_closed_websocket_receive:
  "never_closed st \<Longrightarrow> never_closed (websocket_receive st cid inb now so)"
  by (auto simp add: websocket_receive_def never_closed_send_message split: inbound.splits)
    (simp add: disconnect_def never_closed_def)

lemma ws_calls_analyze_scene_begin:
  "ws_calls (snd (analyze_scene_begin st r now)) = ws_calls st"
  by (auto simp add: analyze_scene_begin_def split: sum.splits)

lemma ws_calls_analyze_scene_resume:
  "ws_calls (snd (analyze_scene_resume st r reply now)) = ws_calls st"
  by (auto simp add: analyze_scene_resume_def Let_def split: sum.splits exn.splits option.splits)

lemma ws_calls_ask_question_begin:
  "ws_calls (snd (ask_question_begin st r now)) = ws_calls st"
  by (auto simp add: ask_question_begin_def Let_def)

lemma ws_calls_ask_question_resume:
  "ws_calls (snd (ask_question_resume st r c reply t1 t2)) = ws_calls st"
  by (auto simp add: ask_question_resume_def Let_def split: sum.splits exn.splits option.splits)

lemma never_closed_step:
  assumes n: "never_closed (srv sys)"
  shows "never_closed (srv (step sys ev))"
proof (cases ev)
  case (Ws_open ws cid ao)
  with n show ?thesis by (simp add: never_closed_connect)
next
  case (Ws_receive cid inb now so)
  with n show ?thesis by (simp add: never_closed_websocket_receive)
next
  case (Post_analyze_scene rid r now)
  with n ws_calls_analyze_scene_begin [of "srv sys" r now] show ?thesis
    by (auto simp add: never_closed_def split: prod.splits sum.splits)
next
  case (Post_ask_question rid r now)
  with n ws_calls_ask_question_begin [of "srv sys" r now] show ?thesis
    by (auto simp add: never_closed_def split: prod.splits sum.splits)
next
  case (Llm_returns rid reply t1 t2)
  show ?thesis
  proof (cases "tasks sys rid")
    case None
    with n Llm_returns show ?thesis by simp
  next
    case (Some task)
    show ?thesis
    proof (cases task)
      case (Scene_in_flight r)
      with Some Llm_returns n ws_calls_analyze_scene_resume [of "srv sys" r reply t2]
      show ?thesis by (auto simp add: never_closed_def split: prod.splits)
    next
      case (Question_in_flight r c)
      with Some Llm_returns n ws_calls_ask_question_resume [of "srv sys" r c reply t1 t2]
      show ?thesis by (auto simp add: never_closed_def split: prod.splits)
    qed
  qed
qed

lemma never_closed_run: "never_closed (srv sys) \<Longrightarrow> never_closed (srv (run sys evs))"
  unfolding run_def by (induction evs arbitrary: sys) (simp_all add: never_closed_step)

lemma never_closed_reachable: "never_closed (srv (run init_system evs))"
  by (rule never_closed_run) (simp add: init_system_def init_server_def never_closed_def)

subsection \<open>What the second half of each handler writes\<close>

lemma analyze_scene_resume_stores:
  assumes "client_sessions (manager st) (client_id request) = Some s"
  shows "snd (analyze_scene_resume st request (Inr text) now)
           = st\<lparr>manager := (manager st)\<lparr>client_sessions := (client_sessions (manager st))
                 (client_id request \<mapsto> s\<lparr>last_scene_description := strip text\<rparr>)\<rparr>\<rparr>"
  using assms by (simp add: analyze_scene_resume_def Let_def)

lemma analyze_scene_resume_no_session:
  assumes "client_sessions (manager st) (client_id request) = None"
  shows "snd (analyze_scene_resume st request reply now) = st"
  using assms by (simp add: analyze_scene_resume_def Let_def split: sum.splits exn.splits)

lemma analyze_scene_failure_keeps_sessions:
  assumes "fst (analyze_scene st request t0 reply t1) = Inl e"
  shows "manager (snd (analyze_scene st request t0 reply t1)) = manager st"
  using assms
  by (auto simp add: analyze_scene_def analyze_scene_begin_def analyze_scene_resume_def Let_def
      split: sum.splits exn.splits if_splits)

lemma ask_question_resume_appends:
  assumes "client_sessions (manager st) (qr_client_id request) = Some s"
  shows "ask_question_resume st request scene_ctx (Inr text) t_entry t_resp
           = (Inr \<lparr>qa_answer = strip text, qa_scene_context = scene_ctx, qa_timestamp = t_resp\<rparr>,
              st\<lparr>manager := (manager st)\<lparr>client_sessions := (client_sessions (manager st))
                 (qr_client_id request \<mapsto> s\<lparr>conversation_history := conversation_history s @
                    [\<lparr>question = qr_question request, answer = strip text,
                      scene_context = scene_ctx, timestamp = t_entry\<rparr>]\<rparr>)\<rparr>\<rparr>)"
  using assms by (simp add: ask_question_resume_def Let_def)

subsection \<open>The example states, evaluated\<close>

lemma client1_connected_session:
  "client_sessions (manager client1_connected) ''client1'' = Some new_session
   \<and> active_connections (manager client1_connected) ''client1'' = Some 1
   \<and> vision_chat client1_connected"
  by (simp add: client1_connected_def eval_defs)

lemma wf_client1_connected: "wf_manager (manager client1_connected)"
  unfolding client1_connected_def
  by (rule wf_connect) (simp add: init_server_def init_manager_def wf_manager_def)

lemma client1_described_session:
  "client_sessions (manager client1_described) ''client1''
     = Some \<lparr>last_scene_description = ''a red chair'', conversation_history = []\<rparr>
   \<and> vision_chat client1_described"
  by (simp add: client1_described_def client1_connected_def client1_request_def eval_defs
      decode_hello strip_a_red_chair)

lemma system_A_session:
  "client_sessions (manager (srv system_A)) ''A'' = Some new_session
   \<and> vision_chat (srv system_A)"
  by (simp add: system_A_def eval_defs)

subsection \<open>Question answering\<close>

text \<open>
  C10. When the vision backend is not initialised, \<^verbatim>\<open>ask_question\<close> fails with status 503
  (BackendUnavailable) for every client and question, whether or not a scene description is
  stored for the client: the availability check comes before the read of the description.
  Nothing is changed and the collaborator is not called.
\<close>

theorem ask_question_backend_unavailable:
  "\<not> vision_chat st \<Longrightarrow>
   ask_question st request t0 reply t_entry t_resp
     = (Inl (HTTPException 503 ''Vision AI not available''), st)"
  by (simp add: ask_question_def ask_question_begin_def)

theorem ask_question_backend_unavailable_witness:
  "\<not> vision_chat (client1_described\<lparr>vision_chat := False\<rparr>)
   \<and> get_scene_description (client1_described\<lparr>vision_chat := False\<rparr>) ''client1''
       = ''a red chair''
   \<and> ask_question (client1_described\<lparr>vision_chat := False\<rparr>) client1_question 2
         (Inr ''red'') 3 4
       = (Inl (HTTPException 503 ''Vision AI not available''),
          client1_described\<lparr>vision_chat := False\<rparr>)"
proof -
  have h: "\<not> vision_chat (client1_described\<lparr>vision_chat := False\<rparr>)" by simp
  have d: "get_scene_description (client1_described\<lparr>vision_chat := False\<rparr>) ''client1''
             = ''a red chair''"
    using client1_described_session by (simp add: get_scene_description_def)
  from h d ask_question_backend_unavailable [OF h, of client1_question 2 "Inr ''red''" 3 4]
  show ?thesis by simp
qed

text \<open>
  C4 (amended). When the vision backend is initialised and the client has no stored scene
  description (no session, or a session whose description is empty), \<^verbatim>\<open>ask_question\<close> fails
  with status 400 (NoContext) and leaves the whole state as it was; in particular the log of
  collaborator calls is unchanged, so the Q&A collaborator is not invoked.
\<close>

theorem ask_question_no_context:
  "vision_chat st \<Longrightarrow> get_scene_description st (qr_client_id request) = [] \<Longrightarrow>
   ask_question st request t0 reply t_entry t_resp
     = (Inl (HTTPException 400
          ''No recent scene analysis available. Please capture a scene first.''), st)"
  by (simp add: ask_question_def ask_question_begin_def)

theorem ask_question_no_context_witness:
  "vision_chat init_server
   \<and> get_scene_description init_server (qr_client_id client1_question) = []
   \<and> ask_question init_server client1_question 0 (Inr ''red'') 1 2
       = (Inl (HTTPException 400
            ''No recent scene analysis available. Please capture a scene first.''),
          init_server)
   \<and> llm_calls init_server = []"
proof -
  have v: "vision_chat init_server" by (simp add: init_server_def)
  have d: "get_scene_description init_server (qr_client_id client1_question) = []"
    by (simp add: get_scene_description_def init_server_def init_manager_def)
  have l: "llm_calls init_server = []" by (simp add: init_server_def)
  from v d l ask_question_no_context [OF v d, of 0 "Inr ''red''" 1 2]
  show ?thesis by simp
qed

text \<open>
  The statement without the condition on the backend fails: with the backend not
  initialised, a client without a stored description gets status 503, not 400.
\<close>

theorem ask_question_no_context_counterexample:
  "get_scene_description uninitialised_server ''client1'' = []
   \<and> fst (ask_question uninitialised_server client1_question 0 (Inr ''red'') 1 2)
       = Inl (HTTPException 503 ''Vision AI not available'')
   \<and> status_code (HTTPException 503 ''Vision AI not available'') \<noteq> 400"
  by (simp add: uninitialised_server_def client1_question_def eval_defs)

text \<open>
  When nothing else runs while the handler waits for the collaborator, the session read at
  the head of the handler is still there at the append.
\<close>

lemma ask_question_uninterrupted_appends:
  assumes "vision_chat st"
    and "client_sessions (manager st) (qr_client_id request) = Some s"
    and "last_scene_description s \<noteq> []"
  shows "fst (ask_question st request t0 (Inr text) t_entry t_resp)
           = Inr \<lparr>qa_answer = strip text,
                  qa_scene_context = get_scene_description st (qr_client_id request),
                  qa_timestamp = t_resp\<rparr>
     \<and> client_sessions (manager (snd (ask_question st request t0 (Inr text) t_entry t_resp)))
         = (client_sessions (manager st))
             (qr_client_id request \<mapsto>
                s\<lparr>conversation_history := conversation_history s @
                     [\<lparr>question = qr_question request,
                       answer = strip text,
                       scene_context = get_scene_description st (qr_client_id request),
                       timestamp = t_entry\<rparr>]\<rparr>)"
  using assms
  by (simp add: ask_question_def ask_question_begin_def ask_question_resume_def
      get_scene_description_def Let_def)

text \<open>
  C8 (amended). For a client with a stored (non-empty) scene description and an initialised
  backend, \<^verbatim>\<open>ask_question\<close> is suspended in its collaborator call holding the description
  stored at the time of the call. Whatever happens while it is in flight, when the collaborator
  returns a text the request succeeds and returns the answer together with that description.
  If the client has a session at that moment, exactly one entry
  \<open>{question, answer, scene_context, timestamp}\<close> is appended to the end of that session's
  history and no other session changes; if the session is gone (the websocket was
  disconnected in the meantime), nothing is appended and the state is left as it was.
\<close>

theorem ask_question_completion_appends:
  assumes "vision_chat (srv sys)"
    and "client_sessions (manager (srv sys)) (qr_client_id request) = Some s"
    and "last_scene_description s \<noteq> []"
    and "tasks (run sys (Post_ask_question rid request t0 # evs)) rid
           = Some (Question_in_flight request (last_scene_description s))"
  shows "tasks (step sys (Post_ask_question rid request t0)) rid
           = Some (Question_in_flight request (last_scene_description s))
     \<and> results (run sys (Post_ask_question rid request t0 # evs
                    @ [Llm_returns rid (Inr text) t_entry t_resp])) rid
         = Some (Question_result
             (Inr \<lparr>qa_answer = strip text, qa_scene_context = last_scene_description s,
                    qa_timestamp = t_resp\<rparr>))
     \<and> (case client_sessions (manager (srv (run sys (Post_ask_question rid request t0 # evs))))
               (qr_client_id request) of
          Some s2 \<Rightarrow>
            client_sessions (manager (srv (run sys (Post_ask_question rid request t0 # evs
                    @ [Llm_returns rid (Inr text) t_entry t_resp]))))
              = (client_sessions
                   (manager (srv (run sys (Post_ask_question rid request t0 # evs)))))
                  (qr_client_id request \<mapsto>
                     s2\<lparr>conversation_history := conversation_history s2 @
                          [\<lparr>question = qr_question request,
                            answer = strip text,
                            scene_context = last_scene_description s,
                            timestamp = t_entry\<rparr>]\<rparr>)
        | None \<Rightarrow>
            srv (run sys (Post_ask_question rid request t0 # evs
                    @ [Llm_returns rid (Inr text) t_entry t_resp]))
              = srv (run sys (Post_ask_question rid request t0 # evs)))"
proof -
  let ?mid = "run sys (Post_ask_question rid request t0 # evs)"
  have fin: "run sys (Post_ask_question rid request t0 # evs
                @ [Llm_returns rid (Inr text) t_entry t_resp])
             = step ?mid (Llm_returns rid (Inr text) t_entry t_resp)"
    using run_snoc [of sys "Post_ask_question rid request t0 # evs"] by simp
  have posted: "tasks (step sys (Post_ask_question rid request t0)) rid
           = Some (Question_in_flight request (last_scene_description s))"
    using assms(1-3)
    by (simp add: ask_question_begin_def get_scene_description_def Let_def)
  have res: "results (step ?mid (Llm_returns rid (Inr text) t_entry t_resp)) rid
         = Some (Question_result
             (Inr \<lparr>qa_answer = strip text, qa_scene_context = last_scene_description s,
                    qa_timestamp = t_resp\<rparr>))"
    using assms(4) by (simp add: ask_question_resume_def Let_def split: option.splits)
  have app: "(case client_sessions (manager (srv ?mid)) (qr_client_id request) of
          Some s2 \<Rightarrow>
            client_sessions (manager (srv (step ?mid (Llm_returns rid (Inr text) t_entry t_resp))))
              = (client_sessions (manager (srv ?mid)))
                  (qr_client_id request \<mapsto>
                     s2\<lparr>conversation_history := conversation_history s2 @
                          [\<lparr>question = qr_question request,
                            answer = strip text,
                            scene_context = last_scene_description s,
                            timestamp = t_entry\<rparr>]\<rparr>)
        | None \<Rightarrow>
            srv (step ?mid (Llm_returns rid (Inr text) t_entry t_resp)) = srv ?mid)"
    using assms(4) by (simp add: ask_question_resume_def Let_def split: option.splits)
  from posted res app show ?thesis unfolding fin by blast
qed

theorem ask_question_completion_appends_witness:
  "vision_chat (srv system_client1_described)
   \<and> client_sessions (manager (srv system_client1_described)) (qr_client_id client1_question)
       = Some \<lparr>last_scene_description = ''a red chair'', conversation_history = []\<rparr>
   \<and> tasks (run system_client1_described
        (Post_ask_question 2 client1_question 2
          # [Ws_receive ''client1'' (Received (Some ''ping'')) 3 None])) 2
       = Some (Question_in_flight client1_question ''a red chair'')
   \<and> results (run system_client1_described
        (Post_ask_question 2 client1_question 2
          # [Ws_receive ''client1'' (Received (Some ''ping'')) 3 None]
          @ [Llm_returns 2 (Inr ''red'') 4 5])) 2
       = Some (Question_result
           (Inr \<lparr>qa_answer = ''red'', qa_scene_context = ''a red chair'', qa_timestamp = 5\<rparr>))
   \<and> client_sessions (manager (srv (run system_client1_described
        (Post_ask_question 2 client1_question 2
          # [Ws_receive ''client1'' (Received (Some ''ping'')) 3 None]
          @ [Llm_returns 2 (Inr ''red'') 4 5])))) ''client1''
       = Some \<lparr>last_scene_description = ''a red chair'',
               conversation_history =
                 [\<lparr>question = ''what color?'', answer = ''red'',
                   scene_context = ''a red chair'', timestamp = 4\<rparr>]\<rparr>"
proof -
  let ?s = "\<lparr>last_scene_description = ''a red chair'', conversation_history = []\<rparr>"
  let ?mid = "run system_client1_described
        (Post_ask_question 2 client1_question 2
          # [Ws_receive ''client1'' (Received (Some ''ping'')) 3 None])"
  have v: "vision_chat (srv system_client1_described)"
    using client1_described_session by (simp add: system_client1_described_def)
  have s: "client_sessions (manager (srv system_client1_described))
             (qr_client_id client1_question) = Some ?s"
    using client1_described_session
    by (simp add: system_client1_described_def client1_question_def)
  have n: "last_scene_description ?s \<noteq> []" by simp
  have q: "qr_client_id client1_question = ''client1''"
    "qr_question client1_question = ''what color?''"
    by (simp_all add: client1_question_def)
  have a: "active_connections (manager client1_described) ''client1'' = Some 1"
    by (simp add: client1_described_def client1_connected_def client1_request_def eval_defs
        decode_hello strip_a_red_chair)
  have t: "tasks ?mid 2 = Some (Question_in_flight client1_question (last_scene_description ?s))"
    using client1_described_session a q
    by (simp add: run_def system_client1_described_def ask_question_begin_def
        get_scene_description_def websocket_receive_def send_message_def Let_def)
  have m: "client_sessions (manager (srv ?mid)) ''client1'' = Some ?s"
    using client1_described_session a q
    by (simp add: run_def system_client1_described_def ask_question_begin_def
        get_scene_description_def websocket_receive_def send_message_def Let_def)
  note th = ask_question_completion_appends [OF v s n t, of "''red''" 4 5]
  from th have r: "results (run system_client1_described
        (Post_ask_question 2 client1_question 2
          # [Ws_receive ''client1'' (Received (Some ''ping'')) 3 None]
          @ [Llm_returns 2 (Inr ''red'') 4 5])) 2
       = Some (Question_result
           (Inr \<lparr>qa_answer = ''red'', qa_scene_context = ''a red chair'', qa_timestamp = 5\<rparr>))"
    by (simp add: strip_red)
  from th m q have h: "client_sessions (manager (srv (run system_client1_described
        (Post_ask_question 2 client1_question 2
          # [Ws_receive ''client1'' (Received (Some ''ping'')) 3 None]
          @ [Llm_returns 2 (Inr ''red'') 4 5])))) ''client1''
       = Some \<lparr>last_scene_description = ''a red chair'',
               conversation_history =
                 [\<lparr>question = ''what color?'', answer = ''red'',
                   scene_context = ''a red chair'', timestamp = 4\<rparr>]\<rparr>"
    by (simp add: strip_red)
  from v s t r h show ?thesis by simp
qed

text \<open>
  Without the condition on the session the statement fails: the client has a stored
  description when the question is asked, its websocket drops while the collaborator call is
  in flight, the request still succeeds with answer and scene context, and no history entry
  exists afterwards.
\<close>

theorem ask_question_disconnect_in_flight_counterexample:
  "get_scene_description (srv system_client1_described) ''client1'' = ''a red chair''
   \<and> results (run system_client1_described
        [Post_ask_question 2 client1_question 2,
         Ws_receive ''client1'' Receive_raises 3 None,
         Llm_returns 2 (Inr ''red'') 4 5]) 2
       = Some (Question_result
           (Inr \<lparr>qa_answer = ''red'', qa_scene_context = ''a red chair'', qa_timestamp = 5\<rparr>))
   \<and> client_sessions (manager (srv (run system_client1_described
        [Post_ask_question 2 client1_question 2,
         Ws_receive ''client1'' Receive_raises 3 None,
         Llm_returns 2 (Inr ''red'') 4 5]))) ''client1'' = None"
proof -
  have q: "qr_client_id client1_question = ''client1''"
    by (simp add: client1_question_def)
  have g: "get_scene_description (srv system_client1_described) ''client1'' = ''a red chair''"
    using client1_described_session
    by (simp add: system_client1_described_def get_scene_description_def)
  have r: "results (run system_client1_described
        [Post_ask_question 2 client1_question 2,
         Ws_receive ''client1'' Receive_raises 3 None,
         Llm_returns 2 (Inr ''red'') 4 5]) 2
       = Some (Question_result
           (Inr \<lparr>qa_answer = ''red'', qa_scene_context = ''a red chair'', qa_timestamp = 5\<rparr>))"
    using client1_described_session q
    by (simp add: run_def system_client1_described_def ask_question_begin_def
        ask_question_resume_def get_scene_description_def websocket_receive_def
        disconnect_def disconnect_manager_def Let_def strip_red)
  have n: "client_sessions (manager (srv (run system_client1_described
        [Post_ask_question 2 client1_question 2,
         Ws_receive ''client1'' Receive_raises 3 None,
         Llm_returns 2 (Inr ''red'') 4 5]))) ''client1'' = None"
    using client1_described_session q
    by (auto simp add: run_def system_client1_described_def ask_question_begin_def
        ask_question_resume_def get_scene_description_def websocket_receive_def
        disconnect_def disconnect_manager_def Let_def strip_red)
  from g r n show ?thesis by blast
qed

subsection \<open>The connection registry\<close>

text \<open>
  C7. \<^verbatim>\<open>disconnect\<close> is idempotent: a second call in a row changes nothing, and on an
  identifier that is not registered (in a state whose two dictionaries have the same keys,
  as every reachable state has) the call changes nothing at all. The method has no raising
  path: both deletions are guarded by a membership test.
\<close>

theorem disconnect_idempotent:
  "disconnect (disconnect st cid) cid = disconnect st cid
   \<and> (wf_manager (manager st) \<longrightarrow> active_connections (manager st) cid = None
        \<longrightarrow> disconnect st cid = st)"
  by (simp add: disconnect_def disconnect_manager_idem disconnect_manager_unknown)

theorem disconnect_idempotent_witness:
  "disconnect (disconnect client1_connected ''client1'') ''client1''
     = disconnect client1_connected ''client1''
   \<and> wf_manager (manager client1_connected)
   \<and> active_connections (manager client1_connected) ''ghost'' = None
   \<and> disconnect client1_connected ''ghost'' = client1_connected
   \<and> active_connections (manager (disconnect client1_connected ''client1'')) ''client1'' = None"
proof -
  have a: "active_connections (manager client1_connected) ''ghost'' = None"
    by (simp add: client1_connected_def eval_defs)
  have g: "active_connections (manager (disconnect client1_connected ''client1'')) ''client1''
             = None"
    by (simp add: client1_connected_def eval_defs disconnect_def disconnect_manager_def)
  from disconnect_idempotent [of client1_connected "''client1''"]
    disconnect_idempotent [of client1_connected "''ghost''"]
    wf_client1_connected a g
  show ?thesis by simp
qed

text \<open>
  C6. When the channel of the identifier is absent, or the write on it fails,
  \<^verbatim>\<open>send_message\<close> returns normally (it has no raising path: the failing statement is
  inside the \<^verbatim>\<open>try\<close>), and the registry it leaves is the one \<^verbatim>\<open>disconnect\<close> leaves:
  afterwards the identifier has neither a channel nor a session. On a failed write the
  method calls \<^verbatim>\<open>disconnect\<close>; with no channel it does nothing, which is what
  \<^verbatim>\<open>disconnect\<close> does there, the two dictionaries having the same keys.
\<close>

theorem send_message_failure_unregisters:
  assumes "wf_manager (manager st)"
    and "active_connections (manager st) cid = None \<or> send_outcome = Some e"
  shows "manager (send_message st cid msg send_outcome) = disconnect_manager (manager st) cid
     \<and> active_connections (manager (send_message st cid msg send_outcome)) cid = None
     \<and> client_sessions (manager (send_message st cid msg send_outcome)) cid = None"
proof (cases "active_connections (manager st) cid")
  case None
  with assms(1) have "client_sessions (manager st) cid = None"
    by (auto simp add: wf_manager_def)
  with None assms(1) show ?thesis
    by (simp add: send_message_def disconnect_manager_unknown)
next
  case (Some ws)
  with assms(2) have "send_outcome = Some e" by simp
  with Some show ?thesis
    by (auto simp add: send_message_def disconnect_def disconnect_manager_def Let_def)
qed

theorem send_message_failure_unregisters_witness:
  "wf_manager (manager client1_connected)
   \<and> active_connections (manager client1_connected) ''client1'' = Some 1
   \<and> active_connections (manager (send_message client1_connected ''client1''
         [(''type'', JStr ''pong'')] (Some (Exception ''connection closed'')))) ''client1'' = None
   \<and> client_sessions (manager (send_message client1_connected ''client1''
         [(''type'', JStr ''pong'')] (Some (Exception ''connection closed'')))) ''client1'' = None
   \<and> active_connections (manager client1_connected) ''ghost'' = None
   \<and> manager (send_message client1_connected ''ghost'' [(''type'', JStr ''pong'')] None)
       = disconnect_manager (manager client1_connected) ''ghost''"
proof -
  have a: "active_connections (manager client1_connected) ''ghost'' = None"
    by (simp add: client1_connected_def eval_defs)
  have c: "active_connections (manager client1_connected) ''client1'' = Some 1"
    using client1_connected_session by simp
  have f: "active_connections (manager client1_connected) ''client1'' = None
             \<or> Some (Exception ''connection closed'') = Some (Exception ''connection closed'')"
    by simp
  have g: "active_connections (manager client1_connected) ''ghost'' = None
             \<or> (None :: exn option) = Some (Exception ''connection closed'')"
    using a by simp
  note failed = send_message_failure_unregisters
    [OF wf_client1_connected f, of "[(''type'', JStr ''pong'')]"]
  note absent = send_message_failure_unregisters
    [OF wf_client1_connected g, of "[(''type'', JStr ''pong'')]"]
  from failed absent wf_client1_connected a c show ?thesis by blast
qed

text \<open>
  C3 (amended). Two \<^verbatim>\<open>connect\<close> calls for one identifier leave exactly one channel
  registered for it, the second; the session of the identifier is a fresh, empty one; and the
  only calls made on the two websockets are the two \<^verbatim>\<open>accept\<close>s: the first channel is
  dropped from the registry, no \<^verbatim>\<open>close\<close> is called on it.
\<close>

theorem connect_twice_replaces:
  "active_connections (manager (snd (connect (snd (connect st ws1 cid None)) ws2 cid None))) cid
     = Some ws2
   \<and> {ws. active_connections
             (manager (snd (connect (snd (connect st ws1 cid None)) ws2 cid None))) cid = Some ws}
     = {ws2}
   \<and> client_sessions (manager (snd (connect (snd (connect st ws1 cid None)) ws2 cid None))) cid
     = Some new_session
   \<and> ws_calls (snd (connect (snd (connect st ws1 cid None)) ws2 cid None))
     = ws_calls st @ [(ws1, Accept), (ws2, Accept)]"
  by (simp add: connect_def Let_def)

theorem connect_twice_replaces_witness:
  "active_connections
     (manager (snd (connect (snd (connect init_server 1 ''c'' None)) 2 ''c'' None))) ''c''
     = Some 2
   \<and> ws_calls (snd (connect (snd (connect init_server 1 ''c'' None)) 2 ''c'' None))
     = [(1, Accept), (2, Accept)]"
  using connect_twice_replaces [of init_server 1 "''c''" 2]
  by (simp add: init_server_def)

text \<open>
  The statement with "the first channel is closed" fails: after the two calls the second
  channel is registered, and the log of websocket calls holds no \<^verbatim>\<open>close\<close> on the first.
\<close>

theorem connect_twice_first_closed_counterexample:
  "\<not> (active_connections
        (manager (snd (connect (snd (connect init_server 1 ''c'' None)) 2 ''c'' None))) ''c''
        = Some 2
      \<and> (1, Close) \<in> set (ws_calls
           (snd (connect (snd (connect init_server 1 ''c'' None)) 2 ''c'' None))))"
  by (simp add: eval_defs)

subsection \<open>Scene analysis\<close>

text \<open>
  C9 (amended). With the backend initialised and an image payload that decodes, a call whose
  collaborator returns a text succeeds, and its result carries that text with leading and
  trailing whitespace stripped as the description, and the fixed confidence 0.85.
\<close>

theorem analyze_scene_success_response:
  assumes "vision_chat st"
    and "decode_image_data (image_data request) = Inr image_bytes"
  shows "fst (analyze_scene st request t0 (Inr text) t1)
           = Inr \<lparr>description = strip text, sa_timestamp = t1, confidence = 0.85\<rparr>"
  using assms
  by (simp add: analyze_scene_def analyze_scene_begin_def analyze_scene_resume_def Let_def)

theorem analyze_scene_success_response_witness:
  "vision_chat client1_connected
   \<and> decode_image_data (image_data client1_request) = Inr ''hello''
   \<and> fst (analyze_scene client1_connected client1_request 0 (Inr ''a red chair'') 1)
       = Inr \<lparr>description = ''a red chair'', sa_timestamp = 1, confidence = 0.85\<rparr>"
proof -
  have v: "vision_chat client1_connected"
    using client1_connected_session by simp
  have d: "decode_image_data (image_data client1_request) = Inr ''hello''"
    by (simp add: client1_request_def decode_hello)
  from analyze_scene_success_response [OF v d, of 0 "''a red chair''" 1] v d
  show ?thesis by (simp add: strip_a_red_chair)
qed

text \<open>
  The description is not always the collaborator's text: a text that starts with a space is
  returned without it.
\<close>

theorem analyze_scene_description_counterexample:
  "fst (analyze_scene client1_connected client1_request 0 (Inr '' a red chair'') 1)
     = Inr \<lparr>description = ''a red chair'', sa_timestamp = 1, confidence = 0.85\<rparr>
   \<and> ''a red chair'' \<noteq> '' a red chair''"
  by (simp add: client1_connected_def client1_request_def eval_defs decode_hello
      strip_leading_space)

text \<open>
  C5 (amended). The payload of an \<^verbatim>\<open>image_data\<close> is the whole text when it holds no
  comma, and otherwise \<^verbatim>\<open>image_data.split(',')[1]\<close>: the segment after the first comma
  and before the second one, if there is a second. With the backend initialised, an
  \<^verbatim>\<open>image_data\<close> whose payload is not decodable base64 makes \<^verbatim>\<open>analyze_scene\<close> fail
  with status 400 (InvalidInput); the state is left as it was, so the stored description is
  unchanged and the collaborator is not called. The check is the base64 decoding only:
  whether the decoded bytes are an image is not examined.
\<close>

theorem analyze_scene_invalid_base64:
  assumes "vision_chat st"
    and "decode_image_data (image_data request) = Inl e"
  shows "analyze_scene st request t0 reply t1
           = (Inl (HTTPException 400 (''Invalid image data: '' @ str_exn e)), st)"
  using assms
  by (simp add: analyze_scene_def analyze_scene_begin_def)

theorem analyze_scene_invalid_base64_witness:
  "vision_chat client1_described
   \<and> decode_image_data (image_data raw_text_request) = Inl (Exception ''Incorrect padding'')
   \<and> analyze_scene client1_described raw_text_request 2 (Inr ''a blue table'') 3
       = (Inl (HTTPException 400 ''Invalid image data: Incorrect padding''), client1_described)
   \<and> get_scene_description client1_described ''client1'' = ''a red chair''"
proof -
  have v: "vision_chat client1_described"
    using client1_described_session by simp
  have d: "decode_image_data (image_data raw_text_request)
             = Inl (Exception ''Incorrect padding'')"
    by (simp add: raw_text_request_def decode_raw_not_an_image)
  have g: "get_scene_description client1_described ''client1'' = ''a red chair''"
    using client1_described_session by (simp add: get_scene_description_def)
  from analyze_scene_invalid_base64 [OF v d, of 2 "Inr ''a blue table''" 3] v d g
  show ?thesis by simp
qed

text \<open>
  The statement for every input that is not an image fails. The twelve bytes
  \<^verbatim>\<open>not-an-image\<close>, sent as the handler expects them (in base64), are no image; they pass
  the check, the call succeeds and the stored description changes. And with the backend not
  initialised the undecodable text gets status 503, not 400.
\<close>

theorem analyze_scene_not_an_image_counterexample:
  "decode_image_data (image_data encoded_text_request) = Inr ''not-an-image''
   \<and> get_scene_description client1_described ''client1'' = ''a red chair''
   \<and> fst (analyze_scene client1_described encoded_text_request 2 (Inr ''a blue table'') 3)
       = Inr \<lparr>description = ''a blue table'', sa_timestamp = 3, confidence = 0.85\<rparr>
   \<and> get_scene_description
         (snd (analyze_scene client1_described encoded_text_request 2 (Inr ''a blue table'') 3))
         ''client1'' = ''a blue table''
   \<and> fst (analyze_scene uninitialised_server raw_text_request 2 (Inr ''a blue table'') 3)
       = Inl (HTTPException 503 ''Vision AI not available'')"
proof -
  have d: "decode_image_data (image_data encoded_text_request) = Inr ''not-an-image''"
    by (simp add: encoded_text_request_def decode_encoded_not_an_image)
  have g: "get_scene_description client1_described ''client1'' = ''a red chair''"
    using client1_described_session by (simp add: get_scene_description_def)
  have c: "client_id encoded_text_request = ''client1''"
    by (simp add: encoded_text_request_def)
  have r: "fst (analyze_scene client1_described encoded_text_request 2 (Inr ''a blue table'') 3)
       = Inr \<lparr>description = ''a blue table'', sa_timestamp = 3, confidence = 0.85\<rparr>"
    using client1_described_session d
    by (simp add: analyze_scene_def analyze_scene_begin_def analyze_scene_resume_def Let_def
        strip_a_blue_table)
  have w: "get_scene_description
         (snd (analyze_scene client1_described encoded_text_request 2 (Inr ''a blue table'') 3))
         ''client1'' = ''a blue table''"
    using client1_described_session d c
    by (simp add: analyze_scene_def analyze_scene_begin_def analyze_scene_resume_def Let_def
        get_scene_description_def strip_a_blue_table)
  have u: "fst (analyze_scene uninitialised_server raw_text_request 2 (Inr ''a blue table'') 3)
       = Inl (HTTPException 503 ''Vision AI not available'')"
    by (simp add: uninitialised_server_def analyze_scene_def analyze_scene_begin_def)
  from d g r w u show ?thesis by blast
qed

text \<open>
  C2. A successful \<^verbatim>\<open>analyze_scene\<close> stores its description only when the client already
  has a session: the store is guarded by \<^verbatim>\<open>if request.client_id in manager.client_sessions\<close>
  and no entry is created. For a client that never opened a websocket the call returns its
  result, stores nothing, and the question that follows fails with status 400.
\<close>

theorem analyze_scene_unseen_client_not_stored:
  "fst (analyze_scene init_server client1_request 0 (Inr ''a red chair'') 1)
     = Inr \<lparr>description = ''a red chair'', sa_timestamp = 1, confidence = 0.85\<rparr>
   \<and> client_sessions
        (manager (snd (analyze_scene init_server client1_request 0 (Inr ''a red chair'') 1)))
        ''client1'' = None
   \<and> get_scene_description
        (snd (analyze_scene init_server client1_request 0 (Inr ''a red chair'') 1))
        ''client1'' = []
   \<and> fst (ask_question
        (snd (analyze_scene init_server client1_request 0 (Inr ''a red chair'') 1))
        client1_question 2 (Inr ''red'') 3 4)
     = Inl (HTTPException 400
         ''No recent scene analysis available. Please capture a scene first.'')"
  by (simp add: client1_request_def client1_question_def eval_defs decode_hello
      strip_a_red_chair)

text \<open>
  The same guard drops the result of a request whose client disconnects while the
  collaborator call is in flight: the request completes with its result, and nothing is
  stored, the session being gone.
\<close>

lemma analyze_scene_disconnect_in_flight:
  "results (run init_system
      [Ws_open 1 ''A'' None,
       Post_analyze_scene 1 first_request 10,
       Ws_receive ''A'' Receive_raises 11 None,
       Llm_returns 1 (Inr ''first'') 12 12]) 1
    = Some (Scene_result
        (Inr \<lparr>description = ''first'', sa_timestamp = 12, confidence = 0.85\<rparr>))
   \<and> get_scene_description (srv (run init_system
      [Ws_open 1 ''A'' None,
       Post_analyze_scene 1 first_request 10,
       Ws_receive ''A'' Receive_raises 11 None,
       Llm_returns 1 (Inr ''first'') 12 12])) ''A'' = []"
  by (simp add: eval_defs first_request_def decode_hello strip_first websocket_receive_def
      disconnect_def disconnect_manager_def)


text \<open>
  Two overlapping calls for a client whose session stays: whichever collaborator call
  returns last decides the stored description.
\<close>

lemma overlapping_analyze_scene_both_orders:
  assumes "vision_chat (srv sys)"
    and "client_sessions (manager (srv sys)) cid = Some s"
    and "client_id ra = cid" and "client_id rb = cid"
    and "decode_image_data (image_data ra) = Inr ia"
    and "decode_image_data (image_data rb) = Inr ib"
    and "a \<noteq> b"
  shows "get_scene_description (srv (run sys
           [Post_analyze_scene a ra t1, Post_analyze_scene b rb t2,
            Llm_returns a (Inr ta) t3 t4, Llm_returns b (Inr tb) t5 t6])) cid = strip tb
       \<and> get_scene_description (srv (run sys
           [Post_analyze_scene a ra t1, Post_analyze_scene b rb t2,
            Llm_returns b (Inr tb) t3 t4, Llm_returns a (Inr ta) t5 t6])) cid = strip ta"
  using assms
  by (simp add: run_def analyze_scene_begin_def analyze_scene_resume_def
      get_scene_description_def Let_def)




end
